theory Spec2Isabelle
  imports Complex_Main "HOL-Library.Char_ord" "HOL-Library.List_Lexorder"
begin

section \<open>Stock coverage analysis (app.py)\<close>

text \<open>
  The script reads a workbook into a pandas DataFrame, checks the required columns,
  renames them, keeps the rows with positive coverage and positive order balance, and
  derives three tables: the mean coverage per branch (\<open>cobertura\<close>), the order balance per
  branch and coverage range (\<open>resumo_valores\<close>) and the same as percentages
  (\<open>resumo_percentuais\<close>).

  Numbers: a float64 cell is modelled as an exact rational or as \<open>NaN\<close> (the value pandas
  gives an empty cell). Sums, products, quotients and the rounding are therefore exact;
  the rounding error of binary floating point and the infinities are not part of this
  model. A computation in doubles can land on the other side of a rounding tie than the
  exact one (in doubles \<open>0.375 * 0.35 / 0.35\<close> is a little below \<open>0.375\<close>), so for the
  coverage summary "rounded to two decimals" is stated as \<open>rounded2\<close> below: a multiple
  of 0.01 at most 0.005 away from the exact value, whichever side of a tie is taken. Group keys (column Filial) are strings, compared as Python compares them (a
  string is its UTF-8 bytes, whose lexicographic order is that of the code points).
\<close>

subsection \<open>Cell values and the numpy / pandas primitives\<close>

datatype val = Num rat | NaN

datatype exn = ZeroDivisionError | TypeError | ValueError | KeyError

text \<open>\<open>series > 0\<close>: a comparison with NaN is False.\<close>

fun gt0 :: "val \<Rightarrow> bool" where
  "gt0 (Num x) = (0 < x)"
| "gt0 NaN = False"

text \<open>Float arithmetic: NaN propagates. A division by zero yields NaN here; IEEE arithmetic
  agrees for \<open>0 / 0\<close> and gives an infinity otherwise, which \<open>val\<close> does not have.
  The divisors of this program are the sum of the weights, which \<open>np_average\<close> tests first,
  the number of rows of a group, and the column TOTAL, which is shown to be positive
  below.\<close>

fun vadd :: "val \<Rightarrow> val \<Rightarrow> val" where
  "vadd (Num a) (Num b) = Num (a + b)"
| "vadd _ _ = NaN"

fun vmul :: "val \<Rightarrow> val \<Rightarrow> val" where
  "vmul (Num a) (Num b) = Num (a * b)"
| "vmul _ _ = NaN"

fun vdiv :: "val \<Rightarrow> val \<Rightarrow> val" where
  "vdiv (Num a) (Num b) = (if b = 0 then NaN else Num (a / b))"
| "vdiv _ _ = NaN"

text \<open>\<open>ndarray.sum()\<close>: NaN propagates.\<close>

definition np_sum :: "val list \<Rightarrow> val" where
  "np_sum vs = foldr vadd vs (Num 0)"

text \<open>The numbers of a column, NaN skipped (\<open>skipna=True\<close>, the default of pandas'
  reductions).\<close>

fun nums :: "val list \<Rightarrow> rat list" where
  "nums [] = []"
| "nums (Num x # vs) = x # nums vs"
| "nums (NaN # vs) = nums vs"

text \<open>\<open>Series.sum()\<close> and \<open>Series.mean()\<close>.\<close>

definition pd_sum :: "val list \<Rightarrow> val" where
  "pd_sum vs = Num (sum_list (nums vs))"

definition pd_mean :: "val list \<Rightarrow> val" where
  "pd_mean vs = (case nums vs of [] \<Rightarrow> NaN | xs \<Rightarrow> Num (sum_list xs / of_nat (length xs)))"

text \<open>\<open>np.rint\<close>: round to the nearest integer, ties to the even one.\<close>

definition rint :: "rat \<Rightarrow> int" where
  "rint y = (let f = \<lfloor>y\<rfloor>; d = y - of_int f in
     if d < 1 / 2 then f else if 1 / 2 < d then f + 1 else if even f then f else f + 1)"

text \<open>\<open>.round(2)\<close>: numpy scales by 100, rounds to an integer and scales back.\<close>

definition round2 :: "rat \<Rightarrow> rat" where
  "round2 x = of_int (rint (x * 100)) / 100"

fun vround2 :: "val \<Rightarrow> val" where
  "vround2 (Num x) = Num (round2 x)"
| "vround2 NaN = NaN"

text \<open>\<open>np.average(a, weights=w)\<close> for one-dimensional arguments: it raises when the shapes
  differ or the weights sum to zero (\<open>scl == 0.0\<close> is False for NaN, so a NaN weight
  does not raise). The products and the quotient are exact here: for a single pair the
  result is \<open>a\<close> itself, where doubles give \<open>a\<close> up to their rounding error.\<close>

definition np_average :: "val list \<Rightarrow> val list \<Rightarrow> exn + val" where
  "np_average a w =
     (if length a \<noteq> length w then Inl TypeError
      else let scl = np_sum w in
        if scl = Num 0 then Inl ZeroDivisionError
        else Inr (vdiv (np_sum (map2 vmul a w)) scl))"

subsection \<open>The rows after renaming, and the filter (line 34)\<close>

record row =
  filial :: "string option"
  cobertura_dias :: val
  valor_estoque :: val
  saldo_pedido :: val

definition df_filter :: "row list \<Rightarrow> row list" where
  "df_filter df = filter (\<lambda>r. gt0 (cobertura_dias r) \<and> gt0 (saldo_pedido r)) df"

subsection \<open>Mean coverage per branch (lines 40-56)\<close>

text \<open>\<open>groupby("filial")\<close>: the distinct keys in ascending order, rows with a missing key
  dropped; each group keeps its rows in their order.\<close>

definition group_keys :: "row list \<Rightarrow> string list" where
  "group_keys df = sort (remdups (List.map_filter filial df))"

definition grupo_of :: "string \<Rightarrow> row list \<Rightarrow> row list" where
  "grupo_of g df = filter (\<lambda>r. filial r = Some g) df"

text \<open>The bare \<open>except\<close> turns every exception into 0.\<close>

definition calcular_media_ponderada :: "row list \<Rightarrow> val" where
  "calcular_media_ponderada grupo =
     (case np_average (map cobertura_dias grupo) (map valor_estoque grupo) of
        Inl e \<Rightarrow> Num 0
      | Inr m \<Rightarrow> m)"

record cobertura_row =
  Filial :: string
  Cobertura_Media_Ponderada :: val
  Cobertura_Media_Simples :: val
  Saldo_Pedido_Total :: val

definition cobertura :: "row list \<Rightarrow> cobertura_row list" where
  "cobertura df =
     map (\<lambda>g. let grupo = grupo_of g df in
            \<lparr>Filial = g,
             Cobertura_Media_Ponderada = vround2 (calcular_media_ponderada grupo),
             Cobertura_Media_Simples = vround2 (pd_mean (map cobertura_dias grupo)),
             Saldo_Pedido_Total = vround2 (pd_sum (map saldo_pedido grupo))\<rparr>)
         (group_keys df)"

subsection \<open>Order balance per coverage range (lines 74-85)\<close>

text \<open>\<open>pd.cut(..., bins=[0, 15, 30, 45, 60, np.inf], labels=..., right=False)\<close>: the bin of
  \<open>x\<close> is found by counting the edges that are at most \<open>x\<close>; a value below the first
  edge, and NaN, get no category. The last edge is infinite, so no rational reaches it.\<close>

definition bins :: "rat list" where
  "bins = [0, 15, 30, 45, 60]"

definition labels :: "string list" where
  "labels = [''0-15 dias'', ''16-30 dias'', ''31-45 dias'', ''46-60 dias'', ''Mais de 60 dias'']"

fun pd_cut :: "val \<Rightarrow> string option" where
  "pd_cut NaN = None"
| "pd_cut (Num x) =
     (let ids = length (filter (\<lambda>b. b \<le> x) bins)
      in if ids = 0 then None else Some (labels ! (ids - 1)))"

definition faixa :: "row \<Rightarrow> string option" where
  "faixa r = pd_cut (cobertura_dias r)"

text \<open>A table with a string index: each row is its key and its labelled cells, in column
  order.\<close>

type_synonym table = "(string \<times> (string \<times> val) list) list"

text \<open>\<open>groupby(['filial', 'faixa'])['saldo_pedido'].sum().unstack().fillna(0)\<close>: one row per
  branch, one column per category, also for the categories without rows: the grouper
  \<open>faixa\<close> is categorical and the grouping keeps every category (\<open>observed=False\<close>, the
  default of pandas before version 3). Rows without a branch or without a category are
  dropped. Then the column TOTAL (line 85).\<close>

definition soma :: "string \<Rightarrow> string \<Rightarrow> row list \<Rightarrow> val" where
  "soma g l df = pd_sum (map saldo_pedido (filter (\<lambda>r. filial r = Some g \<and> faixa r = Some l) df))"

definition resumo_valores :: "row list \<Rightarrow> table" where
  "resumo_valores df =
     map (\<lambda>g. let cells = map (\<lambda>l. (l, soma g l df)) labels
            in (g, cells @ [(''TOTAL'', pd_sum (map snd cells))]))
         (group_keys df)"

subsection \<open>Percentages (lines 100-106)\<close>

text \<open>Every column but TOTAL is divided by TOTAL, scaled and rounded; then TOTAL is dropped.
  Reading a column that does not exist raises KeyError.\<close>

definition percentuais :: "(string \<times> val) list \<Rightarrow> exn + (string \<times> val) list" where
  "percentuais cells =
     (case map_of cells ''TOTAL'' of
        None \<Rightarrow> Inl KeyError
      | Some tot \<Rightarrow>
          Inr (filter (\<lambda>(c, x). c \<noteq> ''TOTAL'')
                 (map (\<lambda>(c, x). (c, if c \<noteq> ''TOTAL''
                                     then vround2 (vmul (vdiv x tot) (Num 100)) else x))
                    cells)))"

fun resumo_percentuais :: "table \<Rightarrow> exn + table" where
  "resumo_percentuais [] = Inr []"
| "resumo_percentuais ((g, cells) # rest) =
     (case percentuais cells of
        Inl e \<Rightarrow> Inl e
      | Inr ps \<Rightarrow>
          (case resumo_percentuais rest of
             Inl e \<Rightarrow> Inl e
           | Inr t \<Rightarrow> Inr ((g, ps) # t)))"

subsection \<open>The three tables of the report\<close>

type_synonym report = "cobertura_row list \<times> table \<times> table"

definition relatorio :: "row list \<Rightarrow> exn + report" where
  "relatorio df0 =
     (let df = df_filter df0;
          cob = cobertura df;
          rv = resumo_valores df
      in case resumo_percentuais rv of
           Inl e \<Rightarrow> Inl e
         | Inr rp \<Rightarrow> Inr (cob, rv, rp))"

subsection \<open>The uploaded table: validation and renaming (lines 16-31)\<close>

text \<open>A cell of the table read from the workbook is a text, a number or empty (NaN). The
  DataFrame is its column labels and its rows, each row holding one cell per column.\<close>

datatype cell = is_Txt: Txt string | Flt val

record dataframe =
  columns :: "string list"
  rows :: "cell list list"

definition required_cols :: "string list" where
  "required_cols = [''Filial'', ''Cobertura Atual'', ''Vlr Estoque Tmk'', ''Mercadoria'', ''Saldo Pedido'']"

text \<open>\<open>df.rename(columns={...})\<close>: a label that is not a key of the dictionary is kept.\<close>

definition renames :: "(string \<times> string) list" where
  "renames = [(''Vlr Estoque Tmk'', ''valor_estoque''), (''Cobertura Atual'', ''cobertura_dias''),
     (''Filial'', ''filial''), (''Saldo Pedido'', ''saldo_pedido'')]"

definition rename :: "string \<Rightarrow> string" where
  "rename c = (case map_of renames c of Some c' \<Rightarrow> c' | None \<Rightarrow> c)"

text \<open>\<open>df[label]\<close> in one row: the cells of the columns that carry the label. Two columns can
  carry one label after the renaming, when the table already had a column of the new name.\<close>

definition cells :: "string \<Rightarrow> string list \<Rightarrow> cell list \<Rightarrow> cell list" where
  "cells label cols r = map snd (filter (\<lambda>(c, x). c = label) (zip cols r))"

text \<open>The typed view of a row: the branch is a text or missing, the three quantities are
  numbers or missing.\<close>

fun as_key :: "cell \<Rightarrow> string option option" where
  "as_key (Txt s) = Some (Some s)"
| "as_key (Flt NaN) = Some None"
| "as_key (Flt (Num x)) = None"

fun as_val :: "cell \<Rightarrow> val option" where
  "as_val (Flt v) = Some v"
| "as_val (Txt s) = None"

definition read_row :: "string list \<Rightarrow> cell list \<Rightarrow> row option" where
  "read_row cols r =
     (case (cells ''filial'' cols r, cells ''cobertura_dias'' cols r,
            cells ''valor_estoque'' cols r, cells ''saldo_pedido'' cols r) of
        ([f], [c], [v], [p]) \<Rightarrow>
          (case (as_key f, as_val c, as_val v, as_val p) of
             (Some k, Some c', Some v', Some p') \<Rightarrow>
               Some \<lparr>filial = k, cobertura_dias = c', valor_estoque = v', saldo_pedido = p'\<rparr>
           | _ \<Rightarrow> None)
      | _ \<Rightarrow> None)"

subsection \<open>The whole run (lines 13-132)\<close>

text \<open>A run ends with the message of line 22 (the missing columns), with the message of line
  131 (an exception raised while processing), or with the three tables.\<close>

datatype error = SchemaError "string list" | ProcessingError exn

text \<open>
  The result is \<open>None\<close> for the tables this model does not cover:
  \<^item> rows that do not have one cell per column;
  \<^item> a table where, after the renaming, \<open>cobertura_dias\<close>, \<open>saldo_pedido\<close> or
    \<open>valor_estoque\<close> labels two columns (selecting the label then yields a frame, not a
    series);
  \<^item> a number in column Filial or a text in column Vlr Estoque Tmk.
  Everywhere else it is the outcome of the script: a text in Cobertura Atual or Saldo Pedido
  makes the comparison of line 34 raise TypeError, and \<open>groupby("filial")\<close> raises ValueError
  when \<open>filial\<close> labels two columns (the grouper is not one-dimensional).
\<close>

definition pipeline :: "dataframe \<Rightarrow> (error + report) option" where
  "pipeline df =
     (let missing_cols = filter (\<lambda>col. col \<notin> set (columns df)) required_cols in
      if missing_cols \<noteq> [] then Some (Inl (SchemaError missing_cols))
      else
        let cols = map rename (columns df) in
        if \<not> list_all (\<lambda>r. length r = length cols) (rows df) then None
        else if \<not> (count_list cols ''cobertura_dias'' = 1 \<and> count_list cols ''saldo_pedido'' = 1)
          then None
        else if list_ex (\<lambda>r. list_ex is_Txt
                  (cells ''cobertura_dias'' cols r @ cells ''saldo_pedido'' cols r)) (rows df)
          then Some (Inl (ProcessingError TypeError))
        else if count_list cols ''filial'' \<noteq> 1 then Some (Inl (ProcessingError ValueError))
        else if count_list cols ''valor_estoque'' \<noteq> 1 then None
        else
          (case those (map (read_row cols) (rows df)) of
             None \<Rightarrow> None
           | Some rs \<Rightarrow>
               (case relatorio rs of
                  Inl e \<Rightarrow> Some (Inl (ProcessingError e))
                | Inr rep \<Rightarrow> Some (Inr rep))))"

subsection \<open>Notions used in the statements\<close>

text \<open>The number in a cell that holds one.\<close>

fun num_of :: "val \<Rightarrow> rat" where
  "num_of (Num x) = x"
| "num_of NaN = 0"

text \<open>The order balance of the rows of branch \<open>g\<close> that \<open>pd_cut\<close> puts in category \<open>l\<close>, and
  of those whose coverage satisfies \<open>P\<close>.\<close>

definition psum :: "string \<Rightarrow> string \<Rightarrow> row list \<Rightarrow> rat" where
  "psum g l df =
     (\<Sum>r\<leftarrow>filter (\<lambda>r. filial r = Some g \<and> faixa r = Some l) df. num_of (saldo_pedido r))"


text \<open>The row of the percentage table for branch \<open>g\<close>, as lines 100-106 compute it from the
  row of \<open>resumo_valores\<close>.\<close>

definition pct_row :: "row list \<Rightarrow> string \<Rightarrow> (string \<times> val) list" where
  "pct_row df g =
     map (\<lambda>l. (l, vround2 (vmul (vdiv (soma g l df) (pd_sum (map (\<lambda>l. soma g l df) labels)))
                       (Num 100))))
       labels"

text \<open>\<open>y\<close> is \<open>x\<close> rounded to two decimals: a multiple of 0.01 at most 0.005 away from
  \<open>x\<close>. Which of two equally near multiples is taken is left open.\<close>

definition rounded2 :: "val \<Rightarrow> rat \<Rightarrow> bool" where
  "rounded2 y x = (\<exists>k :: int. y = Num (of_int k / 100) \<and> \<bar>of_int k / 100 - x\<bar> \<le> 1 / 200)"

text \<open>\<open>df[c]\<close> for the whole table: the cells under label \<open>c\<close>, row by row.\<close>

definition column :: "string \<Rightarrow> dataframe \<Rightarrow> cell list list" where
  "column c df = map (cells c (columns df)) (rows df)"

text \<open>A table as \<open>read_excel\<close> delivers it: the labels are distinct, every row has one cell
  per column.\<close>

definition well_formed :: "dataframe \<Rightarrow> bool" where
  "well_formed df = (distinct (columns df) \<and> list_all (\<lambda>r. length r = length (columns df)) (rows df))"

subsection \<open>Example tables\<close>

text \<open>Rows after renaming: branch A with two valid rows, branch B with one valid row without
  stock value; a row without coverage and a row whose coverage is missing.\<close>

definition ex_valid :: "row list" where
  "ex_valid =
    [\<lparr>filial = Some ''A'', cobertura_dias = Num 10, valor_estoque = Num 100, saldo_pedido = Num 50\<rparr>,
     \<lparr>filial = Some ''B'', cobertura_dias = Num 15, valor_estoque = Num 0, saldo_pedido = Num 30\<rparr>,
     \<lparr>filial = Some ''A'', cobertura_dias = Num 20, valor_estoque = Num 300, saldo_pedido = Num 150\<rparr>]"

definition row_zero :: row where
  "row_zero = \<lparr>filial = Some ''A'', cobertura_dias = Num 0, valor_estoque = Num 500, saldo_pedido = Num 70\<rparr>"

definition row_nan :: row where
  "row_nan = \<lparr>filial = Some ''C'', cobertura_dias = NaN, valor_estoque = Num 10, saldo_pedido = Num 5\<rparr>"

definition ex_rows :: "row list" where
  "ex_rows = ex_valid @ [row_zero, row_nan]"

text \<open>The rows of branch A in the three tables computed from \<open>ex_rows\<close>.\<close>

definition ex_cob_A :: cobertura_row where
  "ex_cob_A = \<lparr>Filial = ''A'', Cobertura_Media_Ponderada = Num (35 / 2),
     Cobertura_Media_Simples = Num 15, Saldo_Pedido_Total = Num 200\<rparr>"

definition ex_cells_A :: "(string \<times> val) list" where
  "ex_cells_A = [(''0-15 dias'', Num 50), (''16-30 dias'', Num 150), (''31-45 dias'', Num 0),
     (''46-60 dias'', Num 0), (''Mais de 60 dias'', Num 0), (''TOTAL'', Num 200)]"


text \<open>A branch with two valid rows, one of them without a stock value.\<close>

definition ex_nan_stock :: "row list" where
  "ex_nan_stock =
    [\<lparr>filial = Some ''A'', cobertura_dias = Num 10, valor_estoque = Num 100, saldo_pedido = Num 50\<rparr>,
     \<lparr>filial = Some ''A'', cobertura_dias = Num 20, valor_estoque = NaN, saldo_pedido = Num 150\<rparr>]"

text \<open>Groups of one row: a coverage with three decimals, a row without stock value, and a
  coverage with two decimals.\<close>

definition ex_single2 :: row where
  "ex_single2 = \<lparr>filial = Some ''A'', cobertura_dias = Num (1012 / 100), valor_estoque = Num 100,
     saldo_pedido = Num 50\<rparr>"

definition ex_single :: row where
  "ex_single = \<lparr>filial = Some ''A'', cobertura_dias = Num (10123 / 1000), valor_estoque = Num 100,
     saldo_pedido = Num 50\<rparr>"

definition ex_single0 :: row where
  "ex_single0 = \<lparr>filial = Some ''B'', cobertura_dias = Num 15, valor_estoque = Num 0,
     saldo_pedido = Num 30\<rparr>"

text \<open>Uploaded tables: one with the five required columns, the same table with a further
  column named \<open>filial\<close>, and the same table without the column Saldo Pedido.\<close>

definition ex_frame :: dataframe where
  "ex_frame = \<lparr>columns = [''Filial'', ''Cobertura Atual'', ''Vlr Estoque Tmk'', ''Mercadoria'', ''Saldo Pedido''],
     rows = [[Txt ''A'', Flt (Num 10), Flt (Num 100), Txt ''parafuso'', Flt (Num 50)],
             [Txt ''A'', Flt (Num 20), Flt (Num 300), Txt ''porca'', Flt (Num 150)]]\<rparr>"

definition ex_frame_extra :: dataframe where
  "ex_frame_extra = \<lparr>columns = [''Filial'', ''Cobertura Atual'', ''Vlr Estoque Tmk'', ''Mercadoria'', ''Saldo Pedido'', ''filial''],
     rows = [[Txt ''A'', Flt (Num 10), Flt (Num 100), Txt ''parafuso'', Flt (Num 50), Txt ''norte''],
             [Txt ''A'', Flt (Num 20), Flt (Num 300), Txt ''porca'', Flt (Num 150), Txt ''sul'']]\<rparr>"

definition ex_frame_missing :: dataframe where
  "ex_frame_missing = \<lparr>columns = [''Filial'', ''Cobertura Atual'', ''Vlr Estoque Tmk'', ''Mercadoria''],
     rows = [[Txt ''A'', Flt (Num 10), Flt (Num 100), Txt ''parafuso''],
             [Txt ''A'', Flt (Num 20), Flt (Num 300), Txt ''porca'']]\<rparr>"

section \<open>Properties\<close>

subsection \<open>Rounding and sums\<close>

lemma rint_error: "\<bar>of_int (rint y) - y\<bar> \<le> 1 / 2"
proof -
  have "of_int \<lfloor>y\<rfloor> \<le> y" "y < of_int \<lfloor>y\<rfloor> + 1" by linarith+
  then show ?thesis
    by (auto simp: rint_def Let_def abs_le_iff)
qed

lemma round2_error: "\<bar>round2 x - x\<bar> \<le> 1 / 200"
proof -
  have "\<bar>of_int (rint (x * 100)) - x * 100\<bar> \<le> 1 / 2" by (rule rint_error)
  then show ?thesis by (simp add: round2_def abs_le_iff field_simps)
qed

lemma round2_zero: "round2 0 = 0"
  by (simp add: round2_def rint_def)

lemma round2_fixed: "round2 (of_int k / 100) = of_int k / 100"
  by (simp add: round2_def rint_def)

lemma rounded2_round2: "rounded2 (Num (round2 x)) x"
proof -
  have "round2 x = of_int (rint (x * 100)) / 100" by (simp add: round2_def)
  moreover have "\<bar>round2 x - x\<bar> \<le> 1 / 200" by (rule round2_error)
  ultimately show ?thesis unfolding rounded2_def by metis
qed

lemma np_sum_Num: "NaN \<notin> set vs \<Longrightarrow> np_sum vs = Num (sum_list (map num_of vs))"
  unfolding np_sum_def
proof (induction vs)
  case Nil then show ?case by simp
next
  case (Cons v vs)
  then show ?case by (cases v) auto
qed

lemma np_sum_NaN: "NaN \<in> set vs \<Longrightarrow> np_sum vs = NaN"
  unfolding np_sum_def
proof (induction vs)
  case Nil then show ?case by simp
next
  case (Cons v vs)
  then show ?case by (cases v; cases "foldr vadd vs (Num 0)") auto
qed

lemma nums_Num: "NaN \<notin> set vs \<Longrightarrow> nums vs = map num_of vs"
  by (induction vs rule: nums.induct) auto

lemma nums_map_Num: "nums (map (\<lambda>x. Num (f x)) xs) = map f xs"
  by (induction xs) auto

lemma sum_nums: "sum_list (nums vs) = sum_list (map num_of vs)"
  by (induction vs rule: nums.induct) auto

lemma pd_mean_Num:
  assumes "NaN \<notin> set vs" "vs \<noteq> []"
  shows "pd_mean vs = Num (sum_list (map num_of vs) / of_nat (length vs))"
  using assms by (cases vs) (auto simp: pd_mean_def nums_Num simp del: nums.simps)

lemma pd_sum_Num: "NaN \<notin> set vs \<Longrightarrow> pd_sum vs = Num (sum_list (map num_of vs))"
  by (simp add: pd_sum_def nums_Num)

lemma sum_list_positive:
  fixes f :: "'a \<Rightarrow> rat"
  assumes "xs \<noteq> []" "\<forall>x \<in> set xs. 0 < f x"
  shows "0 < (\<Sum>x\<leftarrow>xs. f x)"
proof (cases xs)
  case Nil
  with assms show ?thesis by simp
next
  case (Cons y ys)
  have "0 \<le> (\<Sum>x\<leftarrow>ys. f x)"
    using assms(2) Cons by (intro sum_list_nonneg) (auto intro: less_imp_le)
  moreover have "0 < f y" using assms(2) Cons by simp
  ultimately show ?thesis using Cons by simp
qed

subsection \<open>The filter and the groups\<close>

lemma df_filter_Num:
  assumes "r \<in> set (df_filter df)"
  shows "\<exists>c p. cobertura_dias r = Num c \<and> 0 < c \<and> saldo_pedido r = Num p \<and> 0 < p"
proof -
  from assms have "gt0 (cobertura_dias r)" "gt0 (saldo_pedido r)"
    by (auto simp: df_filter_def)
  then show ?thesis
    by (cases "cobertura_dias r"; cases "saldo_pedido r") auto
qed

lemma df_filter_drop:
  assumes "\<not> (gt0 (cobertura_dias r) \<and> gt0 (saldo_pedido r))"
  shows "df_filter (xs @ r # ys) = df_filter (xs @ ys)"
  using assms by (simp add: df_filter_def)

lemma not_valid_notin: "\<not> (gt0 (cobertura_dias r) \<and> gt0 (saldo_pedido r)) \<Longrightarrow> r \<notin> set (df_filter df)"
  by (simp add: df_filter_def)

lemma set_group_keys: "set (group_keys df) = {g. \<exists>r \<in> set df. filial r = Some g}"
  by (force simp: group_keys_def map_filter_def)

lemma sorted_group_keys: "sorted (group_keys df)"
  by (simp add: group_keys_def)

lemma distinct_group_keys: "distinct (group_keys df)"
  by (simp add: group_keys_def)

lemma grupo_of_nonempty: "g \<in> set (group_keys df) \<Longrightarrow> grupo_of g df \<noteq> []"
  by (auto simp: set_group_keys grupo_of_def filter_empty_conv)

lemma grupo_of_subset: "set (grupo_of g df) \<subseteq> set df"
  by (auto simp: grupo_of_def)

lemma grupo_filter_Num:
  assumes "r \<in> set (grupo_of g (df_filter df0))"
  shows "cobertura_dias r \<noteq> NaN \<and> saldo_pedido r \<noteq> NaN"
proof -
  from assms have "r \<in> set (df_filter df0)" by (auto simp: grupo_of_def)
  from df_filter_Num [OF this] show ?thesis by auto
qed

lemma filtered_saldo_pos: "r \<in> set (df_filter df0) \<Longrightarrow> 0 < num_of (saldo_pedido r)"
  using df_filter_Num by fastforce

lemma group_sum_pos:
  assumes "g \<in> set (group_keys (df_filter df0))"
  shows "0 < (\<Sum>r\<leftarrow>grupo_of g (df_filter df0). num_of (saldo_pedido r))"
proof -
  let ?gr = "grupo_of g (df_filter df0)"
  have ne: "?gr \<noteq> []" using assms by (rule grupo_of_nonempty)
  have pos: "\<forall>r \<in> set ?gr. 0 < num_of (saldo_pedido r)"
    using filtered_saldo_pos grupo_of_subset by blast
  from ne pos show ?thesis by (rule sum_list_positive)
qed

subsection \<open>The weighted mean and the coverage summary\<close>

lemma media_ponderada_Num:
  assumes "NaN \<notin> set (map cobertura_dias grupo)" "NaN \<notin> set (map valor_estoque grupo)"
  shows "calcular_media_ponderada grupo =
    (if (\<Sum>r\<leftarrow>grupo. num_of (valor_estoque r)) = 0 then Num 0
     else Num ((\<Sum>r\<leftarrow>grupo. num_of (cobertura_dias r) * num_of (valor_estoque r))
               / (\<Sum>r\<leftarrow>grupo. num_of (valor_estoque r))))"
proof -
  have prod: "np_sum (map2 vmul (map cobertura_dias grupo) (map valor_estoque grupo))
      = Num (\<Sum>r\<leftarrow>grupo. num_of (cobertura_dias r) * num_of (valor_estoque r))"
    using assms unfolding np_sum_def
  proof (induction grupo)
    case Nil then show ?case by simp
  next
    case (Cons r rs)
    then show ?case by (cases "cobertura_dias r"; cases "valor_estoque r") auto
  qed
  show ?thesis
    using np_sum_Num [OF assms(2)] prod
    by (simp add: calcular_media_ponderada_def np_average_def Let_def comp_def)
qed

lemma media_ponderada_NaN:
  assumes "NaN \<in> set (map valor_estoque grupo)"
  shows "calcular_media_ponderada grupo = NaN"
  using np_sum_NaN [OF assms]
  by (simp add: calcular_media_ponderada_def np_average_def Let_def)

lemma media_ponderada_empty: "calcular_media_ponderada [] = Num 0"
  by (simp add: calcular_media_ponderada_def np_average_def np_sum_def)

lemma Filial_cobertura: "map Filial (cobertura df) = group_keys df"
  by (simp add: cobertura_def Let_def comp_def)

lemma cobertura_row_eq:
  assumes "row \<in> set (cobertura df)"
  shows "Filial row \<in> set (group_keys df)"
    and "Cobertura_Media_Ponderada row = vround2 (calcular_media_ponderada (grupo_of (Filial row) df))"
    and "Cobertura_Media_Simples row = vround2 (pd_mean (map cobertura_dias (grupo_of (Filial row) df)))"
    and "Saldo_Pedido_Total row = vround2 (pd_sum (map saldo_pedido (grupo_of (Filial row) df)))"
  using assms by (auto simp: cobertura_def Let_def)

subsection \<open>The coverage ranges and the table of sums\<close>

lemma pd_cut_cases:
  "pd_cut (Num x) =
     (if x < 0 then None
      else if x < 15 then Some ''0-15 dias''
      else if x < 30 then Some ''16-30 dias''
      else if x < 45 then Some ''31-45 dias''
      else if x < 60 then Some ''46-60 dias''
      else Some ''Mais de 60 dias'')"
  by (simp add: bins_def labels_def)

lemma distinct_labels: "distinct labels" and TOTAL_not_label: "''TOTAL'' \<notin> set labels"
  by (simp_all add: labels_def)

lemma faixa_filtered:
  assumes "r \<in> set (df_filter df)"
  shows "\<exists>l \<in> set labels. faixa r = Some l"
proof -
  from df_filter_Num [OF assms] obtain c where "cobertura_dias r = Num c" "0 < c" by blast
  then show ?thesis
    unfolding faixa_def by (simp add: pd_cut_cases labels_def del: pd_cut.simps)
qed

lemma filtered_faixa: "\<forall>r \<in> set (df_filter df0). \<exists>l \<in> set labels. faixa r = Some l"
  using faixa_filtered by blast


lemma soma_Num: "soma g l df = Num (sum_list (nums (map saldo_pedido (filter (\<lambda>r. filial r = Some g \<and> faixa r = Some l) df))))"
  by (simp add: soma_def pd_sum_def)

lemma soma_psum: "soma g l df = Num (psum g l df)"
  by (simp add: soma_Num psum_def sum_nums comp_def)


lemma psum_partition:
  assumes "\<forall>r \<in> set df. \<exists>l \<in> set labels. faixa r = Some l"
  shows "(\<Sum>l\<leftarrow>labels. psum g l df) = (\<Sum>r\<leftarrow>grupo_of g df. num_of (saldo_pedido r))"
  using assms
proof (induction df)
  case Nil
  then show ?case by (simp add: psum_def grupo_of_def)
next
  case (Cons r df)
  then have IH: "(\<Sum>l\<leftarrow>labels. psum g l df) = (\<Sum>r\<leftarrow>grupo_of g df. num_of (saldo_pedido r))"
    by simp
  from Cons.prems obtain l where l: "l \<in> set labels" "faixa r = Some l" by auto
  show ?case
  proof (cases "filial r = Some g")
    case False
    then have "\<And>l. psum g l (r # df) = psum g l df" by (simp add: psum_def)
    with False IH show ?thesis by (simp add: grupo_of_def)
  next
    case True
    have step: "\<And>l'. psum g l' (r # df) = (if l' = l then num_of (saldo_pedido r) else 0) + psum g l' df"
      using True l(2) by (simp add: psum_def)
    have "(\<Sum>l'\<leftarrow>labels. psum g l' (r # df))
        = (\<Sum>l'\<leftarrow>labels. if l' = l then num_of (saldo_pedido r) else 0) + (\<Sum>l'\<leftarrow>labels. psum g l' df)"
      by (simp add: step sum_list_addf)
    also have "(\<Sum>l'\<leftarrow>labels. if l' = l then num_of (saldo_pedido r) else 0) = num_of (saldo_pedido r)"
      using l(1) by (auto simp: labels_def)
    finally show ?thesis using True IH by (simp add: grupo_of_def)
  qed
qed



lemma resumo_valores_row:
  assumes "(g, cs) \<in> set (resumo_valores df)"
  shows "g \<in> set (group_keys df)"
    and "cs = map (\<lambda>l. (l, soma g l df)) labels @ [(''TOTAL'', pd_sum (map (\<lambda>l. soma g l df) labels))]"
  using assms by (auto simp: resumo_valores_def Let_def comp_def)

lemma resumo_valores_cells:
  assumes "(g, cs) \<in> set (resumo_valores df)"
  shows "g \<in> set (group_keys df)"
    and "cs = map (\<lambda>l. (l, Num (psum g l df))) labels @ [(''TOTAL'', Num (\<Sum>l\<leftarrow>labels. psum g l df))]"
  using resumo_valores_row [OF assms] by (simp_all add: soma_psum pd_sum_def nums_map_Num)

lemma keys_resumo_valores: "map fst (resumo_valores df) = group_keys df"
  by (simp add: resumo_valores_def Let_def comp_def)


lemma map_of_cells_label:
  assumes "l \<in> set labels"
  shows "map_of (map (\<lambda>l. (l, f l)) labels @ [(''TOTAL'', t)]) l = Some (f l)"
proof -
  have "map_of (map (\<lambda>l. (l, f l)) labels) l = Some (f l)"
    using assms by (simp add: map_of_map_restrict)
  then show ?thesis by (simp add: map_add_Some_iff)
qed

lemma map_of_cells_TOTAL:
  "map_of (map (\<lambda>l. (l, f l)) labels @ [(''TOTAL'', t)]) ''TOTAL'' = Some t"
proof -
  have "map_of (map (\<lambda>l. (l, f l)) labels) ''TOTAL'' = None"
    using TOTAL_not_label by (simp add: map_of_map_restrict restrict_map_def)
  then show ?thesis by (simp add: map_add_Some_iff)
qed

lemma map_of_cells_labels:
  "map (map_of (map (\<lambda>l. (l, f l)) labels @ [(''TOTAL'', t)])) labels = map (\<lambda>l. Some (f l)) labels"
  by (rule map_cong [OF refl]) (rule map_of_cells_label)

lemma total_filtered:
  assumes "(g, cs) \<in> set (resumo_valores (df_filter df0))"
  shows "map_of cs ''TOTAL'' = Some (Num (\<Sum>r\<leftarrow>grupo_of g (df_filter df0). num_of (saldo_pedido r)))"
proof -
  have "map_of cs ''TOTAL'' = Some (Num (\<Sum>l\<leftarrow>labels. psum g l (df_filter df0)))"
    unfolding resumo_valores_cells(2) [OF assms] by (rule map_of_cells_TOTAL)
  then show ?thesis using psum_partition [OF filtered_faixa] by simp
qed

subsection \<open>The percentages and the report\<close>

lemma percentuais_cells:
  "percentuais (map (\<lambda>l. (l, f l)) labels @ [(''TOTAL'', t)])
     = Inr (map (\<lambda>l. (l, vround2 (vmul (vdiv (f l) t) (Num 100)))) labels)"
proof -
  have "filter (\<lambda>(c, x). c \<noteq> ''TOTAL'') (map (\<lambda>l. (l, g l)) labels) = map (\<lambda>l. (l, g l)) labels" for g :: "string \<Rightarrow> val"
    by (simp add: labels_def)
  then show ?thesis
    unfolding percentuais_def map_of_cells_TOTAL
    by (simp add: labels_def)
qed

lemma resumo_percentuais_map:
  "resumo_percentuais (map (\<lambda>g. (g, map (\<lambda>l. (l, soma g l df)) labels @ [(''TOTAL'', pd_sum (map (\<lambda>l. soma g l df) labels))])) gs)
     = Inr (map (\<lambda>g. (g, pct_row df g)) gs)"
  by (induction gs) (simp_all add: percentuais_cells pct_row_def)

lemma resumo_percentuais_ok:
  "resumo_percentuais (resumo_valores df) = Inr (map (\<lambda>g. (g, pct_row df g)) (group_keys df))"
  using resumo_percentuais_map [of df "group_keys df"]
  by (simp add: resumo_valores_def Let_def comp_def)

lemma relatorio_ok:
  "relatorio df0 = Inr (cobertura (df_filter df0), resumo_valores (df_filter df0),
     map (\<lambda>g. (g, pct_row (df_filter df0) g)) (group_keys (df_filter df0)))"
  by (simp add: relatorio_def Let_def resumo_percentuais_ok)

lemma relatorio_filter: "df_filter df1 = df_filter df2 \<Longrightarrow> relatorio df1 = relatorio df2"
  by (simp add: relatorio_def)





subsection \<open>The run on an uploaded table\<close>

text \<open>The tables of a run that ends with a report are those of \<open>relatorio\<close> on the typed rows
  of the table, that is \<open>cobertura\<close>, \<open>resumo_valores\<close> and the percentages of the filtered
  rows: the statements about these functions below are statements about the run.\<close>

lemma pipeline_report:
  assumes "pipeline df = Some (Inr rep)"
  shows "\<exists>rs. those (map (read_row (map rename (columns df))) (rows df)) = Some rs
    \<and> relatorio rs = Inr rep
    \<and> rep = (cobertura (df_filter rs), resumo_valores (df_filter rs),
              map (\<lambda>g. (g, pct_row (df_filter rs) g)) (group_keys (df_filter rs)))"
proof -
  from assms obtain rs where rs: "those (map (read_row (map rename (columns df))) (rows df)) = Some rs"
    and r: "relatorio rs = Inr rep"
    by (auto simp: pipeline_def Let_def split: if_splits option.splits sum.splits)
  from r have "rep = (cobertura (df_filter rs), resumo_valores (df_filter rs),
              map (\<lambda>g. (g, pct_row (df_filter rs) g)) (group_keys (df_filter rs)))"
    by (simp add: relatorio_ok)
  with rs r show ?thesis by blast
qed

lemma rename_if:
  "rename c = (if c = ''Vlr Estoque Tmk'' then ''valor_estoque''
     else if c = ''Cobertura Atual'' then ''cobertura_dias''
     else if c = ''Filial'' then ''filial''
     else if c = ''Saldo Pedido'' then ''saldo_pedido'' else c)"
  by (simp add: rename_def renames_def)

lemma rename_new:
  assumes "(old, new) \<in> set renames" "c \<noteq> new"
  shows "(rename c = new) = (c = old)"
proof -
  consider "old = ''Vlr Estoque Tmk''" "new = ''valor_estoque''"
    | "old = ''Cobertura Atual''" "new = ''cobertura_dias''"
    | "old = ''Filial''" "new = ''filial''"
    | "old = ''Saldo Pedido''" "new = ''saldo_pedido''"
    using assms(1) unfolding renames_def by fastforce
  then show ?thesis
  proof cases
    case 1 with assms(2) show ?thesis by (simp add: rename_if)
  next
    case 2 with assms(2) show ?thesis by (simp add: rename_if)
  next
    case 3 with assms(2) show ?thesis by (simp add: rename_if)
  next
    case 4 with assms(2) show ?thesis by (simp add: rename_if)
  qed
qed

lemma cells_rename:
  assumes "(old, new) \<in> set renames" "new \<notin> set cols"
  shows "cells new (map rename cols) r = cells old cols r"
  using assms(2)
proof (induction cols arbitrary: r)
  case Nil
  then show ?case by (simp add: cells_def)
next
  case (Cons c cols)
  then have IH: "\<And>r. cells new (map rename cols) r = cells old cols r" and c: "c \<noteq> new"
    by auto
  show ?case
  proof (cases r)
    case Nil
    then show ?thesis by (simp add: cells_def)
  next
    case (Cons x xs)
    with IH [of xs] rename_new [OF assms(1) c] show ?thesis
      by (simp add: cells_def)
  qed
qed

lemma count_rename:
  assumes "(old, new) \<in> set renames" "new \<notin> set cols"
  shows "count_list (map rename cols) new = count_list cols old"
  using assms(2)
proof (induction cols)
  case Nil
  then show ?case by simp
next
  case (Cons c cols)
  then have "c \<noteq> new" by auto
  from rename_new [OF assms(1) this] Cons show ?case by auto
qed

lemma count_distinct: "distinct xs \<Longrightarrow> x \<in> set xs \<Longrightarrow> count_list xs x = 1"
  by (induction xs) auto

lemma renames_mem:
  "(''Filial'', ''filial'') \<in> set renames"
  "(''Cobertura Atual'', ''cobertura_dias'') \<in> set renames"
  "(''Vlr Estoque Tmk'', ''valor_estoque'') \<in> set renames"
  "(''Saldo Pedido'', ''saldo_pedido'') \<in> set renames"
  by (simp_all add: renames_def)

lemma required_mem:
  "''Filial'' \<in> set required_cols" "''Cobertura Atual'' \<in> set required_cols"
  "''Vlr Estoque Tmk'' \<in> set required_cols" "''Saldo Pedido'' \<in> set required_cols"
  by (simp_all add: required_cols_def)

lemma read_row_rename:
  assumes "set cols \<inter> snd ` set renames = {}"
  shows "read_row (map rename cols) r =
     (case (cells ''Filial'' cols r, cells ''Cobertura Atual'' cols r,
            cells ''Vlr Estoque Tmk'' cols r, cells ''Saldo Pedido'' cols r) of
        ([f], [c], [v], [p]) \<Rightarrow>
          (case (as_key f, as_val c, as_val v, as_val p) of
             (Some k, Some c', Some v', Some p') \<Rightarrow>
               Some \<lparr>filial = k, cobertura_dias = c', valor_estoque = v', saldo_pedido = p'\<rparr>
           | _ \<Rightarrow> None)
      | _ \<Rightarrow> None)"
proof -
  have n: "new \<notin> set cols" if "(old, new) \<in> set renames" for old new
    using assms that by force
  show ?thesis
    unfolding read_row_def
    by (simp only: cells_rename [OF renames_mem(1) n [OF renames_mem(1)]]
        cells_rename [OF renames_mem(2) n [OF renames_mem(2)]]
        cells_rename [OF renames_mem(3) n [OF renames_mem(3)]]
        cells_rename [OF renames_mem(4) n [OF renames_mem(4)]])
qed

lemma pipeline_well_formed:
  assumes "well_formed df" "set required_cols \<subseteq> set (columns df)"
    and "set (columns df) \<inter> snd ` set renames = {}"
  shows "pipeline df =
     (if list_ex (\<lambda>r. list_ex is_Txt
            (cells ''Cobertura Atual'' (columns df) r @ cells ''Saldo Pedido'' (columns df) r)) (rows df)
      then Some (Inl (ProcessingError TypeError))
      else (case those (map (read_row (map rename (columns df))) (rows df)) of
              None \<Rightarrow> None
            | Some rs \<Rightarrow>
                (case relatorio rs of
                   Inl e \<Rightarrow> Some (Inl (ProcessingError e))
                 | Inr rep \<Rightarrow> Some (Inr rep))))"
proof -
  let ?cols = "map rename (columns df)"
  have n: "new \<notin> set (columns df)" if "(old, new) \<in> set renames" for old new
    using assms(3) that by force
  have m: "filter (\<lambda>col. col \<notin> set (columns df)) required_cols = []"
    using assms(2) by (auto simp: filter_empty_conv)
  have rect: "list_all (\<lambda>r. length r = length ?cols) (rows df)"
    using assms(1) by (simp add: well_formed_def)
  have one: "count_list ?cols new = 1" if "(old, new) \<in> set renames" "old \<in> set required_cols" for old new
  proof -
    have "old \<in> set (columns df)" using that(2) assms(2) by blast
    then have "count_list (columns df) old = 1"
      using assms(1) by (simp add: well_formed_def count_distinct)
    then show ?thesis using count_rename [OF that(1) n [OF that(1)]] by simp
  qed
  note c = one [OF renames_mem(1) required_mem(1)] one [OF renames_mem(2) required_mem(2)]
    one [OF renames_mem(3) required_mem(3)] one [OF renames_mem(4) required_mem(4)]
  note cr = cells_rename [OF renames_mem(2) n [OF renames_mem(2)]]
    cells_rename [OF renames_mem(4) n [OF renames_mem(4)]]
  show ?thesis
    unfolding pipeline_def Let_def by (simp only: m rect c cr) simp
qed

lemma map_pair_eq:
  assumes "map f1 xs = map f2 ys" "map g1 xs = map g2 ys"
  shows "map (\<lambda>x. (f1 x, g1 x)) xs = map (\<lambda>y. (f2 y, g2 y)) ys"
  using assms
proof (induction xs arbitrary: ys)
  case Nil
  then show ?case by simp
next
  case (Cons x xs)
  then show ?case by (cases ys) auto
qed

text \<open>Columns beyond the required ones are not looked at, as long as none of them carries one
  of the labels that the renaming introduces: two well-formed tables that have the
  required columns and agree on them end in the same way.\<close>

lemma extra_columns_ignored:
  assumes wf: "well_formed df1" "well_formed df2"
    and req: "set required_cols \<subseteq> set (columns df1)" "set required_cols \<subseteq> set (columns df2)"
    and new: "set (columns df1) \<inter> snd ` set renames = {}" "set (columns df2) \<inter> snd ` set renames = {}"
    and agree: "\<forall>c \<in> set required_cols. column c df1 = column c df2"
  shows "pipeline df1 = pipeline df2"
proof -
  let ?K = "\<lambda>df r. (cells ''Filial'' (columns df) r, cells ''Cobertura Atual'' (columns df) r,
      cells ''Vlr Estoque Tmk'' (columns df) r, cells ''Saldo Pedido'' (columns df) r)"
  define T where "T = (\<lambda>(f :: cell list, c :: cell list, v :: cell list, p :: cell list). list_ex is_Txt (c @ p))"
  define R where "R = (\<lambda>(f, c, v, p).
     (case (f, c, v, p) of
        ([f], [c], [v], [p]) \<Rightarrow>
          (case (as_key f, as_val c, as_val v, as_val p) of
             (Some k, Some c', Some v', Some p') \<Rightarrow>
               Some \<lparr>filial = k, cobertura_dias = c', valor_estoque = v', saldo_pedido = p'\<rparr>
           | _ \<Rightarrow> None)
      | _ \<Rightarrow> None))"
  have col: "map (cells c (columns df1)) (rows df1) = map (cells c (columns df2)) (rows df2)"
    if "c \<in> set required_cols" for c
    using agree that by (simp add: column_def)
  have K: "map (?K df1) (rows df1) = map (?K df2) (rows df2)"
    by (intro map_pair_eq col required_mem)
  have t: "list_ex (\<lambda>r. list_ex is_Txt
        (cells ''Cobertura Atual'' (columns df) r @ cells ''Saldo Pedido'' (columns df) r)) (rows df)
      = list_ex T (map (?K df) (rows df))" for df
    by (simp add: list_ex_iff T_def)
  have r: "map (read_row (map rename (columns df))) (rows df) = map R (map (?K df) (rows df))"
    if "set (columns df) \<inter> snd ` set renames = {}" for df
    by (simp add: read_row_rename [OF that] R_def)
  show ?thesis
    unfolding pipeline_well_formed [OF wf(1) req(1) new(1)] pipeline_well_formed [OF wf(2) req(2) new(2)]
      t r [OF new(1)] r [OF new(2)] K ..
qed

section \<open>The claims\<close>

subsection \<open>The coverage summary (C1, C7)\<close>

text \<open>
  Claim C1 says that for every group of filtered rows the weighted mean is
  \<open>\<Sum>(coverage \<times> stock value) / \<Sum>(stock value)\<close>, or 0 when that sum is zero or the computation
  raises. It is not so for a group with a missing stock value: line 34 filters on the
  coverage and the order balance only, \<open>np.average\<close> does not raise on a NaN weight, and
  the weighted mean of the group is NaN (the table is formatted with \<open>na_rep="-"\<close>). Here
  branch A has the valid rows (10, 100, 50) and (20, NaN, 150).
\<close>

theorem cobertura_nan_counterexample:
  "df_filter ex_nan_stock = ex_nan_stock
   \<and> grupo_of ''A'' (df_filter ex_nan_stock) = ex_nan_stock
   \<and> np_average (map cobertura_dias ex_nan_stock) (map valor_estoque ex_nan_stock) = Inr NaN
   \<and> cobertura (df_filter ex_nan_stock) =
       [\<lparr>Filial = ''A'', Cobertura_Media_Ponderada = NaN,
          Cobertura_Media_Simples = Num 15, Saldo_Pedido_Total = Num 200\<rparr>]
   \<and> Cobertura_Media_Ponderada (hd (cobertura (df_filter ex_nan_stock))) \<noteq> Num 0"
  by code_simp

text \<open>
  Claim C1, amended. For every row of the coverage summary computed from the filtered rows,
  with \<open>grupo\<close> the filtered rows of its branch: the group is not empty and its coverage and
  order balance are numbers. When every stock value of the group is a number, the weighted
  mean is 0 if the stock values sum to zero, and otherwise
  \<open>\<Sum>(coverage \<times> stock value) / \<Sum>(stock value)\<close> rounded to two decimals; when a stock value is
  missing, the weighted mean is NaN. The simple mean and the total order balance are the
  mean of the coverage and the sum of the order balance, rounded to two decimals. Whenever
  \<open>np.average\<close> raises, as it does for an empty group, \<open>calcular_media_ponderada\<close> yields 0.
  The rows are in strictly ascending order of the branch, one per branch of the filtered
  rows.
\<close>

theorem cobertura_spec:
  assumes "row \<in> set (cobertura (df_filter df0))"
  shows "sorted (map Filial (cobertura (df_filter df0)))
    \<and> distinct (map Filial (cobertura (df_filter df0)))
    \<and> set (map Filial (cobertura (df_filter df0))) = {g. \<exists>r \<in> set (df_filter df0). filial r = Some g}
    \<and> (let grupo = grupo_of (Filial row) (df_filter df0);
            C = (\<Sum>r\<leftarrow>grupo. num_of (cobertura_dias r));
            V = (\<Sum>r\<leftarrow>grupo. num_of (valor_estoque r));
            W = (\<Sum>r\<leftarrow>grupo. num_of (cobertura_dias r) * num_of (valor_estoque r));
            P = (\<Sum>r\<leftarrow>grupo. num_of (saldo_pedido r))
        in grupo \<noteq> []
         \<and> (\<forall>r \<in> set grupo. cobertura_dias r \<noteq> NaN \<and> saldo_pedido r \<noteq> NaN)
         \<and> (NaN \<notin> valor_estoque ` set grupo \<and> V = 0 \<longrightarrow> Cobertura_Media_Ponderada row = Num 0)
         \<and> (NaN \<notin> valor_estoque ` set grupo \<and> V \<noteq> 0 \<longrightarrow>
              rounded2 (Cobertura_Media_Ponderada row) (W / V))
         \<and> (NaN \<in> valor_estoque ` set grupo \<longrightarrow> Cobertura_Media_Ponderada row = NaN)
         \<and> rounded2 (Cobertura_Media_Simples row) (C / of_nat (length grupo))
         \<and> rounded2 (Saldo_Pedido_Total row) P)
    \<and> calcular_media_ponderada [] = Num 0
    \<and> (\<forall>grupo e. np_average (map cobertura_dias grupo) (map valor_estoque grupo) = Inl e
          \<longrightarrow> calcular_media_ponderada grupo = Num 0)"
proof -
  let ?df = "df_filter df0"
  let ?grupo = "grupo_of (Filial row) ?df"
  let ?V = "\<Sum>r\<leftarrow>?grupo. num_of (valor_estoque r)"
  let ?W = "\<Sum>r\<leftarrow>?grupo. num_of (cobertura_dias r) * num_of (valor_estoque r)"
  note row = cobertura_row_eq [OF assms]
  have ne: "?grupo \<noteq> []" using row(1) by (rule grupo_of_nonempty)
  have fin: "\<forall>r \<in> set ?grupo. cobertura_dias r \<noteq> NaN \<and> saldo_pedido r \<noteq> NaN"
    using grupo_filter_Num by blast
  have cs: "NaN \<notin> set (map cobertura_dias ?grupo)" and ps: "NaN \<notin> set (map saldo_pedido ?grupo)"
    using fin by auto
  have wm: "Cobertura_Media_Ponderada row = Num (round2 (if ?V = 0 then 0 else ?W / ?V))"
    if "NaN \<notin> valor_estoque ` set ?grupo"
  proof -
    from that have "NaN \<notin> set (map valor_estoque ?grupo)" by simp
    from media_ponderada_Num [OF cs this] show ?thesis by (simp add: row(2))
  qed
  have w0: "NaN \<notin> valor_estoque ` set ?grupo \<and> ?V = 0 \<longrightarrow> Cobertura_Media_Ponderada row = Num 0"
    using wm by (simp add: round2_zero)
  have w1: "NaN \<notin> valor_estoque ` set ?grupo \<and> ?V \<noteq> 0 \<longrightarrow>
      rounded2 (Cobertura_Media_Ponderada row) (?W / ?V)"
    using wm rounded2_round2 [of "?W / ?V"] by simp
  have w2: "NaN \<in> valor_estoque ` set ?grupo \<longrightarrow> Cobertura_Media_Ponderada row = NaN"
  proof
    assume "NaN \<in> valor_estoque ` set ?grupo"
    then have "NaN \<in> set (map valor_estoque ?grupo)" by simp
    from media_ponderada_NaN [OF this] show "Cobertura_Media_Ponderada row = NaN"
      by (simp add: row(2))
  qed
  have "Cobertura_Media_Simples row =
      Num (round2 ((\<Sum>r\<leftarrow>?grupo. num_of (cobertura_dias r)) / of_nat (length ?grupo)))"
    using pd_mean_Num [OF cs] ne by (simp add: row(3) comp_def)
  then have m: "rounded2 (Cobertura_Media_Simples row)
      ((\<Sum>r\<leftarrow>?grupo. num_of (cobertura_dias r)) / of_nat (length ?grupo))"
    by (simp add: rounded2_round2)
  have "Saldo_Pedido_Total row = Num (round2 (\<Sum>r\<leftarrow>?grupo. num_of (saldo_pedido r)))"
    using pd_sum_Num [OF ps] by (simp add: row(4) comp_def)
  then have t: "rounded2 (Saldo_Pedido_Total row) (\<Sum>r\<leftarrow>?grupo. num_of (saldo_pedido r))"
    by (simp add: rounded2_round2)
  have exc: "\<forall>grupo e. np_average (map cobertura_dias grupo) (map valor_estoque grupo) = Inl e
          \<longrightarrow> calcular_media_ponderada grupo = Num 0"
    by (simp add: calcular_media_ponderada_def)
  have keys: "sorted (map Filial (cobertura ?df))" "distinct (map Filial (cobertura ?df))"
    "set (map Filial (cobertura ?df)) = {g. \<exists>r \<in> set ?df. filial r = Some g}"
    unfolding Filial_cobertura
    by (rule sorted_group_keys, rule distinct_group_keys, rule set_group_keys)
  show ?thesis
    unfolding Let_def
    using keys ne fin w0 w1 w2 m t exc media_ponderada_empty by blast
qed

theorem cobertura_spec_witness:
  "ex_cob_A \<in> set (cobertura (df_filter ex_rows))
   \<and> grupo_of ''A'' (df_filter ex_rows) \<noteq> []
   \<and> NaN \<notin> valor_estoque ` set (grupo_of ''A'' (df_filter ex_rows))
   \<and> (100 + 300 :: rat) \<noteq> 0
   \<and> rounded2 (Cobertura_Media_Ponderada ex_cob_A) ((10 * 100 + 20 * 300) / (100 + 300))
   \<and> rounded2 (Cobertura_Media_Simples ex_cob_A) ((10 + 20) / 2)
   \<and> rounded2 (Saldo_Pedido_Total ex_cob_A) (50 + 150)
   \<and> sorted (map Filial (cobertura (df_filter ex_rows)))"
proof -
  have mem: "ex_cob_A \<in> set (cobertura (df_filter ex_rows))"
    by code_simp
  have f: "Filial ex_cob_A = ''A''"
    by (simp add: ex_cob_A_def)
  have v: "NaN \<notin> valor_estoque ` set (grupo_of ''A'' (df_filter ex_rows))"
    by code_simp
  have n: "length (grupo_of ''A'' (df_filter ex_rows)) = 2"
    by code_simp
  have C: "(\<Sum>r\<leftarrow>grupo_of ''A'' (df_filter ex_rows). num_of (cobertura_dias r)) = 10 + 20"
    by code_simp
  have V: "(\<Sum>r\<leftarrow>grupo_of ''A'' (df_filter ex_rows). num_of (valor_estoque r)) = 100 + 300"
    by code_simp
  have W: "(\<Sum>r\<leftarrow>grupo_of ''A'' (df_filter ex_rows). num_of (cobertura_dias r) * num_of (valor_estoque r))
      = 10 * 100 + 20 * 300"
    by code_simp
  have P: "(\<Sum>r\<leftarrow>grupo_of ''A'' (df_filter ex_rows). num_of (saldo_pedido r)) = 50 + 150"
    by code_simp
  from cobertura_spec [OF mem] mem v show ?thesis
    unfolding Let_def f n C V W P by simp
qed

text \<open>
  Claim C7 says that the weighted mean reported for a group of one filtered row is exactly
  the coverage of that row. It is not: the summary is rounded to two decimals (a coverage
  of 10.123 is reported as 10.12), and a row without stock value makes the weights sum to
  zero, which \<open>calcular_media_ponderada\<close> answers with 0.
\<close>

theorem single_row_counterexample:
  "grupo_of ''A'' (df_filter [ex_single]) = [ex_single]
   \<and> cobertura (df_filter [ex_single]) =
       [\<lparr>Filial = ''A'', Cobertura_Media_Ponderada = Num (1012 / 100),
          Cobertura_Media_Simples = Num (1012 / 100), Saldo_Pedido_Total = Num 50\<rparr>]
   \<and> cobertura_dias ex_single = Num (10123 / 1000)
   \<and> Cobertura_Media_Ponderada (hd (cobertura (df_filter [ex_single]))) \<noteq> cobertura_dias ex_single
   \<and> grupo_of ''B'' (df_filter [ex_single0]) = [ex_single0]
   \<and> cobertura (df_filter [ex_single0]) =
       [\<lparr>Filial = ''B'', Cobertura_Media_Ponderada = Num 0,
          Cobertura_Media_Simples = Num 15, Saldo_Pedido_Total = Num 30\<rparr>]
   \<and> cobertura_dias ex_single0 = Num 15
   \<and> Cobertura_Media_Ponderada (hd (cobertura (df_filter [ex_single0]))) \<noteq> cobertura_dias ex_single0"
  by code_simp

text \<open>
  Claim C7, amended. For a group of one filtered row whose coverage has at most two decimals
  and whose stock value is a number other than zero, the reported weighted mean is exactly
  the coverage of the row. When the stock value is zero the reported weighted mean is 0.
\<close>

theorem single_row_weighted_mean:
  assumes "row \<in> set (cobertura (df_filter df0))"
    and "grupo_of (Filial row) (df_filter df0) = [r]"
  shows "\<exists>c. cobertura_dias r = Num c \<and> 0 < c
    \<and> (\<forall>v k. valor_estoque r = Num v \<and> v \<noteq> 0 \<and> c = of_int k / 100 \<longrightarrow>
          Cobertura_Media_Ponderada row = cobertura_dias r)
    \<and> (valor_estoque r = Num 0 \<longrightarrow> Cobertura_Media_Ponderada row = Num 0)"
proof -
  have "r \<in> set (grupo_of (Filial row) (df_filter df0))" using assms(2) by simp
  then have "r \<in> set (df_filter df0)" using grupo_of_subset by blast
  from df_filter_Num [OF this] obtain c where c: "cobertura_dias r = Num c" "0 < c" by blast
  have wm: "Cobertura_Media_Ponderada row = vround2 (calcular_media_ponderada [r])"
    using cobertura_row_eq(2) [OF assms(1)] assms(2) by simp
  have ex: "Cobertura_Media_Ponderada row = cobertura_dias r"
    if "valor_estoque r = Num v" "v \<noteq> 0" "c = of_int k / 100" for v k
  proof -
    have "round2 c = c" unfolding that(3) by (rule round2_fixed)
    then show ?thesis
      using that(1,2) c(1)
      by (simp add: wm calcular_media_ponderada_def np_average_def np_sum_def)
  qed
  have z: "Cobertura_Media_Ponderada row = Num 0" if "valor_estoque r = Num 0"
    using that c by (simp add: wm calcular_media_ponderada_def np_average_def np_sum_def round2_zero)
  from c ex z show ?thesis by blast
qed

theorem single_row_weighted_mean_witness:
  "\<lparr>Filial = ''A'', Cobertura_Media_Ponderada = Num (1012 / 100),
     Cobertura_Media_Simples = Num (1012 / 100), Saldo_Pedido_Total = Num 50\<rparr>
       \<in> set (cobertura (df_filter [ex_single2]))
   \<and> grupo_of ''A'' (df_filter [ex_single2]) = [ex_single2]
   \<and> valor_estoque ex_single2 = Num 100
   \<and> cobertura_dias ex_single2 = Num (of_int 1012 / 100)
   \<and> Num (1012 / 100) = cobertura_dias ex_single2"
proof -
  let ?row = "\<lparr>Filial = ''A'', Cobertura_Media_Ponderada = Num (1012 / 100),
     Cobertura_Media_Simples = Num (1012 / 100), Saldo_Pedido_Total = Num 50\<rparr>"
  have m: "?row \<in> set (cobertura (df_filter [ex_single2]))" by code_simp
  have g: "grupo_of (Filial ?row) (df_filter [ex_single2]) = [ex_single2]" by code_simp
  have v: "valor_estoque ex_single2 = Num 100" by (simp add: ex_single2_def)
  have c: "cobertura_dias ex_single2 = Num (of_int 1012 / 100)" by (simp add: ex_single2_def)
  from single_row_weighted_mean [OF m g] v c
  have "Cobertura_Media_Ponderada ?row = cobertura_dias ex_single2"
    by fastforce
  with m g v c show ?thesis by simp
qed

subsection \<open>The filter (C2, C10)\<close>

text \<open>
  Claim C2. A row whose coverage is a number at most 0, or whose order balance is a number
  at most 0, is dropped by the filter: wherever it stands in the table, the filtered rows,
  the coverage summary, the table per coverage range and the whole report (percentages
  included) are those of the table without it.
\<close>

theorem filter_excludes_nonpositive:
  assumes "(\<exists>x. cobertura_dias r = Num x \<and> x \<le> 0) \<or> (\<exists>y. saldo_pedido r = Num y \<and> y \<le> 0)"
  shows "df_filter (xs @ r # ys) = df_filter (xs @ ys)
    \<and> r \<notin> set (df_filter (xs @ r # ys))
    \<and> cobertura (df_filter (xs @ r # ys)) = cobertura (df_filter (xs @ ys))
    \<and> resumo_valores (df_filter (xs @ r # ys)) = resumo_valores (df_filter (xs @ ys))
    \<and> relatorio (xs @ r # ys) = relatorio (xs @ ys)"
proof -
  from assms have inv: "\<not> (gt0 (cobertura_dias r) \<and> gt0 (saldo_pedido r))" by auto
  have eq: "df_filter (xs @ r # ys) = df_filter (xs @ ys)" using inv by (rule df_filter_drop)
  moreover have "r \<notin> set (df_filter (xs @ r # ys))" using inv by (rule not_valid_notin)
  moreover have "relatorio (xs @ r # ys) = relatorio (xs @ ys)" using eq by (rule relatorio_filter)
  ultimately show ?thesis by simp
qed

theorem filter_excludes_nonpositive_witness:
  "cobertura_dias row_zero = Num 0
   \<and> relatorio (ex_valid @ row_zero # [row_nan]) = relatorio (ex_valid @ [row_nan])
   \<and> row_zero \<notin> set (df_filter (ex_valid @ row_zero # [row_nan]))"
proof -
  have c: "cobertura_dias row_zero = Num 0" by (simp add: row_zero_def)
  then have "(\<exists>x. cobertura_dias row_zero = Num x \<and> x \<le> 0)
      \<or> (\<exists>y. saldo_pedido row_zero = Num y \<and> y \<le> 0)" by simp
  from filter_excludes_nonpositive [OF this, of ex_valid "[row_nan]"] c show ?thesis by blast
qed

text \<open>
  Claim C10. A row whose coverage or order balance is missing (NaN) is dropped by the filter
  in the same way: the report is that of the table without the row, and the run yields a
  report, not an exception.
\<close>

theorem filter_excludes_missing:
  assumes "cobertura_dias r = NaN \<or> saldo_pedido r = NaN"
  shows "df_filter (xs @ r # ys) = df_filter (xs @ ys)
    \<and> r \<notin> set (df_filter (xs @ r # ys))
    \<and> cobertura (df_filter (xs @ r # ys)) = cobertura (df_filter (xs @ ys))
    \<and> resumo_valores (df_filter (xs @ r # ys)) = resumo_valores (df_filter (xs @ ys))
    \<and> relatorio (xs @ r # ys) = relatorio (xs @ ys)
    \<and> (\<exists>rep. relatorio (xs @ r # ys) = Inr rep)"
proof -
  from assms have inv: "\<not> (gt0 (cobertura_dias r) \<and> gt0 (saldo_pedido r))" by auto
  have eq: "df_filter (xs @ r # ys) = df_filter (xs @ ys)" using inv by (rule df_filter_drop)
  moreover have "r \<notin> set (df_filter (xs @ r # ys))" using inv by (rule not_valid_notin)
  moreover have "relatorio (xs @ r # ys) = relatorio (xs @ ys)" using eq by (rule relatorio_filter)
  moreover have "\<exists>rep. relatorio (xs @ r # ys) = Inr rep" by (simp add: relatorio_ok)
  ultimately show ?thesis by simp
qed

theorem filter_excludes_missing_witness:
  "cobertura_dias row_nan = NaN
   \<and> relatorio (ex_valid @ row_nan # [row_zero]) = relatorio (ex_valid @ [row_zero])
   \<and> (\<exists>rep. relatorio (ex_valid @ row_nan # [row_zero]) = Inr rep)"
proof -
  have c: "cobertura_dias row_nan = NaN" by (simp add: row_nan_def)
  then have "cobertura_dias row_nan = NaN \<or> saldo_pedido row_nan = NaN" by simp
  from filter_excludes_missing [OF this, of ex_valid "[row_zero]"] c show ?thesis by blast
qed

subsection \<open>The table per coverage range (C3, C9, C5)\<close>



text \<open>
  Claim C9. Every branch in the table per coverage range has a positive TOTAL: the branch
  has a filtered row, and every filtered row has a positive order balance. So lines
  100-106 never divide by zero: they yield a table (no exception) whose cells are all
  numbers.
\<close>

theorem total_positive:
  assumes "(g, cs) \<in> set (resumo_valores (df_filter df0))"
  shows "(\<exists>t. map_of cs ''TOTAL'' = Some (Num t) \<and> 0 < t)
    \<and> (\<exists>r \<in> set (df_filter df0). filial r = Some g)
    \<and> (\<forall>r \<in> set (df_filter df0). \<exists>p. saldo_pedido r = Num p \<and> 0 < p)
    \<and> (\<exists>rp. resumo_percentuais (resumo_valores (df_filter df0)) = Inr rp
          \<and> (\<forall>(g', ps) \<in> set rp. \<forall>(l, x) \<in> set ps. x \<noteq> NaN))"
proof -
  let ?df = "df_filter df0"
  have g: "g \<in> set (group_keys ?df)" using assms by (rule resumo_valores_cells(1))
  have t: "\<exists>t. map_of cs ''TOTAL'' = Some (Num t) \<and> 0 < t"
    using total_filtered [OF assms] group_sum_pos [OF g] by simp
  have ex: "\<exists>r \<in> set ?df. filial r = Some g" using g by (simp add: set_group_keys)
  have pos: "\<forall>r \<in> set ?df. \<exists>p. saldo_pedido r = Num p \<and> 0 < p"
    using df_filter_Num by blast
  have fin: "x \<noteq> NaN" if "g' \<in> set (group_keys ?df)" "(l, x) \<in> set (pct_row ?df g')" for g' l x
  proof -
    have "0 < (\<Sum>l\<leftarrow>labels. psum g' l ?df)"
      using psum_partition [OF filtered_faixa] group_sum_pos [OF that(1)] by simp
    then show ?thesis
      using that(2) by (auto simp: pct_row_def soma_psum pd_sum_def nums_map_Num)
  qed
  have "\<forall>(g', ps) \<in> set (map (\<lambda>g. (g, pct_row ?df g)) (group_keys ?df)). \<forall>(l, x) \<in> set ps. x \<noteq> NaN"
    using fin by auto
  then have rp: "\<exists>rp. resumo_percentuais (resumo_valores ?df) = Inr rp
          \<and> (\<forall>(g', ps) \<in> set rp. \<forall>(l, x) \<in> set ps. x \<noteq> NaN)"
    unfolding resumo_percentuais_ok by blast
  from t ex pos rp show ?thesis by blast
qed

theorem total_positive_witness:
  "(''A'', ex_cells_A) \<in> set (resumo_valores (df_filter ex_rows))
   \<and> (\<exists>t. map_of ex_cells_A ''TOTAL'' = Some (Num t) \<and> 0 < t)"
proof -
  have mem: "(''A'', ex_cells_A) \<in> set (resumo_valores (df_filter ex_rows))"
    by code_simp
  from total_positive [OF mem] mem show ?thesis by blast
qed

text \<open>
  Claim C5. The two tables have the same branches in the same order, and for each branch the
  five range cells are numbers whose sum is the TOTAL cell, which differs from the
  (rounded) total order balance of the coverage summary by at most 0.01.
\<close>

theorem buckets_match_summary:
  assumes "row \<in> set (cobertura (df_filter df0))"
    and "(g, cs) \<in> set (resumo_valores (df_filter df0))"
    and "Filial row = g"
  shows "map fst (resumo_valores (df_filter df0)) = map Filial (cobertura (df_filter df0))
    \<and> (\<exists>bs t s. map (map_of cs) labels = map (\<lambda>b. Some (Num b)) bs
          \<and> map_of cs ''TOTAL'' = Some (Num t)
          \<and> sum_list bs = t
          \<and> Saldo_Pedido_Total row = Num s
          \<and> \<bar>t - s\<bar> \<le> 1 / 100)"
proof -
  let ?df = "df_filter df0"
  let ?bs = "map (\<lambda>l. psum g l ?df) labels"
  let ?t = "\<Sum>r\<leftarrow>grupo_of g ?df. num_of (saldo_pedido r)"
  have keys: "map fst (resumo_valores ?df) = map Filial (cobertura ?df)"
    by (simp add: keys_resumo_valores Filial_cobertura)
  have b: "map (map_of cs) labels = map (\<lambda>b. Some (Num b)) ?bs"
    unfolding resumo_valores_cells(2) [OF assms(2)] map_of_cells_labels by (simp add: comp_def)
  have t: "map_of cs ''TOTAL'' = Some (Num ?t)"
    using assms(2) by (rule total_filtered)
  have sum: "sum_list ?bs = ?t"
    using psum_partition [OF filtered_faixa] by simp
  have "\<forall>r \<in> set (grupo_of g ?df). saldo_pedido r \<noteq> NaN"
    using grupo_filter_Num by blast
  then have ps: "NaN \<notin> set (map saldo_pedido (grupo_of g ?df))"
    by auto
  have s: "Saldo_Pedido_Total row = Num (round2 ?t)"
    using cobertura_row_eq(4) [OF assms(1)] pd_sum_Num [OF ps] assms(3) by (simp add: comp_def)
  have "\<bar>?t - round2 ?t\<bar> \<le> 1 / 200"
    using round2_error [of ?t] by (simp add: abs_minus_commute)
  then have d: "\<bar>?t - round2 ?t\<bar> \<le> 1 / 100" by simp
  from keys b t sum s d show ?thesis by blast
qed

theorem buckets_match_summary_witness:
  "ex_cob_A \<in> set (cobertura (df_filter ex_rows))
   \<and> (''A'', ex_cells_A) \<in> set (resumo_valores (df_filter ex_rows))
   \<and> Filial ex_cob_A = ''A''
   \<and> (\<exists>bs t s. map (map_of ex_cells_A) labels = map (\<lambda>b. Some (Num b)) bs
          \<and> map_of ex_cells_A ''TOTAL'' = Some (Num t)
          \<and> sum_list bs = t
          \<and> Saldo_Pedido_Total ex_cob_A = Num s
          \<and> \<bar>t - s\<bar> \<le> 1 / 100)"
proof -
  have m1: "ex_cob_A \<in> set (cobertura (df_filter ex_rows))" by code_simp
  have m2: "(''A'', ex_cells_A) \<in> set (resumo_valores (df_filter ex_rows))" by code_simp
  have m3: "Filial ex_cob_A = ''A''" by (simp add: ex_cob_A_def)
  from buckets_match_summary [OF m1 m2 m3] m1 m2 m3 show ?thesis by blast
qed

subsection \<open>The percentages (C6)\<close>



subsection \<open>Missing and further columns (C4, C8)\<close>

text \<open>
  Claim C4. When a required column is absent, the run ends with the message of line 22 for
  the list of the required columns that are absent, in the order of \<open>required_cols\<close>; the
  list is not empty and holds exactly the absent ones. The outcome is this message whatever
  the rows hold, and it is not a report.
\<close>

theorem missing_columns_halt:
  assumes "\<not> set required_cols \<subseteq> set (columns df)"
  shows "\<exists>missing. pipeline df = Some (Inl (SchemaError missing))
    \<and> missing = filter (\<lambda>col. col \<notin> set (columns df)) required_cols
    \<and> missing \<noteq> []
    \<and> set missing = set required_cols - set (columns df)
    \<and> (\<forall>rs. pipeline (df\<lparr>rows := rs\<rparr>) = Some (Inl (SchemaError missing)))"
proof -
  let ?m = "filter (\<lambda>col. col \<notin> set (columns df)) required_cols"
  have ne: "?m \<noteq> []" using assms by (auto simp: filter_empty_conv)
  have p: "pipeline d = Some (Inl (SchemaError ?m))" if "columns d = columns df" for d
    using ne that by (simp add: pipeline_def Let_def)
  have s: "set ?m = set required_cols - set (columns df)" by auto
  have "\<forall>rs. pipeline (df\<lparr>rows := rs\<rparr>) = Some (Inl (SchemaError ?m))"
    by (simp add: p)
  with p [of df] ne s show ?thesis by blast
qed

theorem missing_columns_halt_witness:
  "\<not> set required_cols \<subseteq> set (columns ex_frame_missing)
   \<and> pipeline ex_frame_missing = Some (Inl (SchemaError [''Saldo Pedido'']))"
proof -
  have h: "\<not> set required_cols \<subseteq> set (columns ex_frame_missing)" by code_simp
  have f: "filter (\<lambda>col. col \<notin> set (columns ex_frame_missing)) required_cols = [''Saldo Pedido'']"
    by code_simp
  from missing_columns_halt [OF h] f h show ?thesis by auto
qed

text \<open>
  Claim C8 says that columns beyond the five required ones have no effect on the tables.
  That holds for the columns whose label is none of those the renaming introduces
  (\<open>extra_columns_ignored\<close> above), and fails otherwise. The table \<open>ex_frame_extra\<close> is
  \<open>ex_frame\<close> with one more column, named \<open>filial\<close>: the two tables agree on the five
  required columns. The renaming of line 26 gives the column Filial that same label,
  \<open>groupby("filial")\<close> then finds a two-dimensional grouper and raises ValueError, and the
  run ends with the message of line 131, whereas \<open>ex_frame\<close> yields the three tables.
\<close>

theorem extra_column_filial:
  "take 5 (columns ex_frame_extra) = columns ex_frame
   \<and> columns ex_frame = required_cols
   \<and> map (take 5) (rows ex_frame_extra) = rows ex_frame
   \<and> pipeline ex_frame =
       Some (Inr ([\<lparr>Filial = ''A'', Cobertura_Media_Ponderada = Num (35 / 2),
                    Cobertura_Media_Simples = Num 15, Saldo_Pedido_Total = Num 200\<rparr>],
                  [(''A'', [(''0-15 dias'', Num 50), (''16-30 dias'', Num 150), (''31-45 dias'', Num 0),
                            (''46-60 dias'', Num 0), (''Mais de 60 dias'', Num 0), (''TOTAL'', Num 200)])],
                  [(''A'', [(''0-15 dias'', Num 25), (''16-30 dias'', Num 75), (''31-45 dias'', Num 0),
                            (''46-60 dias'', Num 0), (''Mais de 60 dias'', Num 0)])]))
   \<and> pipeline ex_frame_extra = Some (Inl (ProcessingError ValueError))"
  by code_simp

end
